theory Spec2Isabelle
  imports Main "HOL-Library.Multiset"
begin

section \<open>Go values shared by the websocket package\<close>

text \<open>
  A Go \<open>string\<close> and a \<open>[]byte\<close> are byte sequences: both are \<open>char list\<close>
  (an Isabelle \<open>char\<close> is one byte). A Go \<open>error\<close> result is \<open>error option\<close>
  (\<open>None\<close> is \<open>nil\<close>). A \<open>*Client\<close> is a \<open>ptr\<close>: \<open>Null\<close> is \<open>nil\<close>,
  \<open>Addr a\<close> is the client stored at address \<open>a\<close>; Go compares such pointers by
  address.
\<close>

type_synonym bytes = "char list"

datatype error = Err string

datatype ptr = Null | Addr nat

text \<open>
  What running a piece of goroutine code gives: it returns (\<open>Ok\<close>), it parks on a
  channel operation that cannot proceed (\<open>Parked\<close>), or it panics (\<open>Panic\<close>).
\<close>

datatype 'a outcome = Ok 'a | Parked | Panic string

section \<open>Hub membership (internal/websocket/hub.go)\<close>

text \<open>
  \<open>Hub.clients\<close> is a slice of client pointers. The mutex \<open>mu\<close> makes each of
  \<open>AddClient\<close> and \<open>RemoveClient\<close> one atomic step, which a function from the
  hub before to the hub after is.
\<close>

record Hub =
  clients :: "ptr list"

definition NewHub :: Hub where
  "NewHub = \<lparr>clients = []\<rparr>"

definition AddClient :: "Hub \<Rightarrow> ptr \<Rightarrow> error option \<times> Hub" where
  "AddClient h client =
     (if client = Null then (Some (Err ''client cannot be nil''), h)
      else (None, h\<lparr>clients := clients h @ [client]\<rparr>))"

text \<open>
  The loop \<open>for i, c := range h.clients\<close> of \<open>RemoveClient\<close>: \<open>i\<close> is the index
  reached, the last argument the elements not yet visited. At the first match the slice
  becomes \<open>append(h.clients[:i], h.clients[i+1:]...)\<close> and the loop breaks.
\<close>

fun RemoveClient_loop :: "ptr list \<Rightarrow> ptr \<Rightarrow> nat \<Rightarrow> ptr list \<Rightarrow> ptr list" where
  "RemoveClient_loop cs client i [] = cs"
| "RemoveClient_loop cs client i (c # rest) =
     (if c = client then take i cs @ drop (i + 1) cs
      else RemoveClient_loop cs client (i + 1) rest)"

definition RemoveClient :: "Hub \<Rightarrow> ptr \<Rightarrow> Hub" where
  "RemoveClient h client =
     (if client = Null then h
      else h\<lparr>clients := RemoveClient_loop (clients h) client 0 (clients h)\<rparr>)"

definition GetClients :: "Hub \<Rightarrow> ptr list" where
  "GetClients h = clients h"

section \<open>Messages (the Message struct and its constants)\<close>

text \<open>
  \<open>Mode\<close> is a Go \<open>int\<close>; only the constants below and frame kinds are ever stored
  in it. \<open>Payload\<close> is a \<open>[]byte\<close>: \<open>None\<close> is the nil slice, which
  \<open>encoding/json\<close> writes as \<open>null\<close>, and \<open>Some []\<close> the empty one.
\<close>

definition MessageTypeError :: string where
  "MessageTypeError = ''error''"

definition MessageModeText :: int where
  "MessageModeText = 1"

definition MessageModeBinary :: int where
  "MessageModeBinary = 2"

record Message =
  Mode :: int
  Type :: string
  Payload :: "bytes option"
  ClientID :: string

text \<open>The zero value of the struct, what \<open>var msg Message\<close> declares.\<close>

definition zero_Message :: Message where
  "zero_Message = \<lparr>Mode = 0, Type = [], Payload = None, ClientID = []\<rparr>"

section \<open>Buffered channels\<close>

text \<open>
  A \<open>chan Message\<close> made by \<open>make(chan Message, 256)\<close>: the queued messages,
  oldest first, and whether \<open>close\<close> has been called. The language fixes the rest:
  a send on a closed channel panics, a send on a full one parks the sender, closing a
  closed channel panics.
\<close>

record chan =
  buf :: "Message list"
  closed :: bool

definition chan_cap :: nat where
  "chan_cap = 256"

definition make_chan :: chan where
  "make_chan = \<lparr>buf = [], closed = False\<rparr>"

definition chan_send :: "chan \<Rightarrow> Message \<Rightarrow> chan outcome" where
  "chan_send ch m =
     (if closed ch then Panic ''send on closed channel''
      else if length (buf ch) < chan_cap then Ok (ch\<lparr>buf := buf ch @ [m]\<rparr>)
      else Parked)"

definition chan_close :: "chan \<Rightarrow> chan outcome" where
  "chan_close ch =
     (if closed ch then Panic ''close of closed channel''
      else Ok (ch\<lparr>closed := True\<rparr>))"

section \<open>The connection (gorilla/websocket, outside the repository)\<close>

text \<open>
  The frame kinds are the opcodes of the library. A \<open>Conn\<close> is what the package can
  observe of a \<open>*websocket.Conn\<close>: \<open>wlog\<close> records every \<open>WriteMessage\<close> call
  (kind, data, result), \<open>wfail\<close> is the environment's script of results for the calls
  to come (\<open>None\<close> is success, and so is a call past the end of the script), and
  \<open>cclosed\<close> says that \<open>Close\<close> was called, after which every write fails. The
  results of \<open>ReadMessage\<close> are an argument of the read pump.
\<close>

definition TextMessage :: int where
  "TextMessage = 1"

definition BinaryMessage :: int where
  "BinaryMessage = 2"

definition CloseMessage :: int where
  "CloseMessage = 8"

definition PingMessage :: int where
  "PingMessage = 9"

definition PongMessage :: int where
  "PongMessage = 10"

record Conn =
  wlog :: "(int \<times> bytes \<times> error option) list"
  wfail :: "error option list"
  cclosed :: bool

definition conn_WriteMessage :: "Conn \<Rightarrow> int \<Rightarrow> bytes \<Rightarrow> error option \<times> Conn" where
  "conn_WriteMessage cn messageType data =
     (if cclosed cn then
        (Some (Err ''use of closed connection''),
         cn\<lparr>wlog := wlog cn @ [(messageType, data, Some (Err ''use of closed connection''))]\<rparr>)
      else
        (case wfail cn of
           [] \<Rightarrow> (None, cn\<lparr>wlog := wlog cn @ [(messageType, data, None)]\<rparr>)
         | r # rs \<Rightarrow> (r, cn\<lparr>wlog := wlog cn @ [(messageType, data, r)], wfail := rs\<rparr>)))"

definition conn_Close :: "Conn \<Rightarrow> Conn" where
  "conn_Close cn = cn\<lparr>cclosed := True\<rparr>"

text \<open>The frames that reached the peer: the logged writes that returned no error.\<close>

definition frames_sent :: "Conn \<Rightarrow> (int \<times> bytes) list" where
  "frames_sent cn = map (\<lambda>(k, d, r). (k, d)) (filter (\<lambda>(k, d, r). r = None) (wlog cn))"

section \<open>Clients (internal/websocket/client.go)\<close>

text \<open>
  \<open>conn\<close> is a pointer that may be nil (\<open>None\<close>); the connection and the two
  channels belong to this client alone. \<open>hub\<close> is the back reference.
\<close>

record Client =
  ID :: string
  conn :: "Conn option"
  send :: chan
  receive :: chan
  hub :: ptr

definition NewClient :: "string \<Rightarrow> Conn option \<Rightarrow> ptr \<Rightarrow> Client" where
  "NewClient id' cn h = \<lparr>ID = id', conn = cn, send = make_chan, receive = make_chan, hub = h\<rparr>"

text \<open>
  \<open>Start\<close> refuses a client without a connection; otherwise it launches the read
  pump and the write pump, modelled below, and returns nil.
\<close>

definition Start :: "Client \<Rightarrow> error option" where
  "Start c = (if conn c = None then Some (Err ''connection not initialized'') else None)"

text \<open>
  \<open>Close\<close>: returns at once on a nil connection, else closes the connection, then
  \<open>close(c.send)\<close>, then \<open>close(c.receive)\<close>. Nothing sets \<open>conn\<close> to nil.
\<close>

definition Close :: "Client \<Rightarrow> Client outcome" where
  "Close c =
     (case conn c of
        None \<Rightarrow> Ok c
      | Some cn \<Rightarrow>
          (case chan_close (send c) of
             Ok s \<Rightarrow>
               (case chan_close (receive c) of
                  Ok r \<Rightarrow> Ok (c\<lparr>conn := Some (conn_Close cn), send := s, receive := r\<rparr>)
                | Parked \<Rightarrow> Parked
                | Panic p \<Rightarrow> Panic p)
           | Parked \<Rightarrow> Parked
           | Panic p \<Rightarrow> Panic p))"

definition Reader :: "Client \<Rightarrow> chan" where
  "Reader c = receive c"

definition Writer :: "Client \<Rightarrow> chan" where
  "Writer c = send c"

section \<open>The JSON envelope of a Message (encoding/json on the struct tags)\<close>

text \<open>
  The tags of the struct are \<open>Mode: "-"\<close>, \<open>Type: "type"\<close>,
  \<open>Payload: "payload"\<close> and \<open>ClientID: "cid,omitempty"\<close>. \<open>encoding/json\<close> is
  the standard library; what it does with these tags is modelled on JSON values, the
  information content of a JSON text. The text itself (escapes, white space) is the
  \<open>render\<close> and \<open>parse\<close> argument of the functions that need it.
  \<open>JStr\<close> holds the string's UTF-8 bytes; a number that is not an integer has no
  value here (the library rejects it for every field of this struct).
\<close>

datatype json =
    JNull
  | JBool bool
  | JNum int
  | JStr string
  | JArr "json list"
  | JObj "(string \<times> json) list"

subsection \<open>Strings: coercion to valid UTF-8\<close>

text \<open>
  The encoder writes a Go string "coerced to valid UTF-8, replacing invalid bytes with
  the Unicode replacement rune" (U+FFFD, the bytes EF BF BD). \<open>rune_len\<close> is the
  length of the well-formed encoding at the head of the bytes, or 0 if there is none.
\<close>

definition byte_in :: "nat \<Rightarrow> nat \<Rightarrow> char \<Rightarrow> bool" where
  "byte_in lo hi c = (lo \<le> (of_char c :: nat) \<and> (of_char c :: nat) \<le> hi)"

fun rune_len :: "bytes \<Rightarrow> nat" where
  "rune_len [] = 0"
| "rune_len (c # cs) =
     (if byte_in 0 127 c then 1
      else if byte_in 194 223 c then
        (case cs of c1 # _ \<Rightarrow> if byte_in 128 191 c1 then 2 else 0 | _ \<Rightarrow> 0)
      else if byte_in 224 239 c then
        (case cs of
           c1 # c2 # _ \<Rightarrow>
             if byte_in (if byte_in 224 224 c then 160 else 128)
                        (if byte_in 237 237 c then 159 else 191) c1
                \<and> byte_in 128 191 c2
             then 3 else 0
         | _ \<Rightarrow> 0)
      else if byte_in 240 244 c then
        (case cs of
           c1 # c2 # c3 # _ \<Rightarrow>
             if byte_in (if byte_in 240 240 c then 144 else 128)
                        (if byte_in 244 244 c then 143 else 191) c1
                \<and> byte_in 128 191 c2 \<and> byte_in 128 191 c3
             then 4 else 0
         | _ \<Rightarrow> 0)
      else 0)"

definition replacement_rune :: bytes where
  "replacement_rune = [char_of (239 :: nat), char_of (191 :: nat), char_of (189 :: nat)]"

text \<open>
  The first argument counts the bytes still to copy of a rune already found well
  formed.
\<close>

fun coerce_utf8 :: "nat \<Rightarrow> bytes \<Rightarrow> bytes" where
  "coerce_utf8 k [] = []"
| "coerce_utf8 (Suc k) (c # cs) = c # coerce_utf8 k cs"
| "coerce_utf8 0 (c # cs) =
     (if rune_len (c # cs) = 0 then replacement_rune @ coerce_utf8 0 cs
      else c # coerce_utf8 (rune_len (c # cs) - 1) cs)"

definition ToValidUTF8 :: "string \<Rightarrow> string" where
  "ToValidUTF8 s = coerce_utf8 0 s"



subsection \<open>Byte slices: base64, standard alphabet, padded\<close>

definition b64_char :: "nat \<Rightarrow> char" where
  "b64_char n =
     (if n < 26 then char_of (65 + n)
      else if n < 52 then char_of (71 + n)
      else if n < 62 then char_of (n - 4)
      else if n = 62 then CHR ''+''
      else CHR ''/'')"

definition b64_val :: "char \<Rightarrow> nat option" where
  "b64_val c =
     (if byte_in 65 90 c then Some (of_char c - 65)
      else if byte_in 97 122 c then Some (of_char c - 71)
      else if byte_in 48 57 c then Some (of_char c + 4)
      else if c = CHR ''+'' then Some 62
      else if c = CHR ''/'' then Some 63
      else None)"

fun b64_encode :: "bytes \<Rightarrow> string" where
  "b64_encode [] = []"
| "b64_encode [a] =
     [b64_char (of_char a div 4), b64_char ((of_char a mod 4) * 16), CHR ''='', CHR ''='']"
| "b64_encode [a, b] =
     [b64_char (of_char a div 4),
      b64_char ((of_char a mod 4) * 16 + of_char b div 16),
      b64_char ((of_char b mod 16) * 4), CHR ''='']"
| "b64_encode (a # b # c # rest) =
     [b64_char (of_char a div 4),
      b64_char ((of_char a mod 4) * 16 + of_char b div 16),
      b64_char ((of_char b mod 16) * 4 + of_char c div 64),
      b64_char (of_char c mod 64)] @ b64_encode rest"

text \<open>
  One group of four characters gives three bytes; the last group may end in one or two
  \<open>=\<close> and then gives two bytes or one. The bits left over in a padded group are not
  checked (the standard encoding is not strict).
\<close>

definition b64_group :: "char \<Rightarrow> char \<Rightarrow> char \<Rightarrow> char \<Rightarrow> bool \<Rightarrow> bytes option" where
  "b64_group w x y z final =
     (case (b64_val w, b64_val x) of
        (Some p, Some q) \<Rightarrow>
          (if final \<and> y = CHR ''='' \<and> z = CHR ''='' then
             Some [char_of (p * 4 + q div 16)]
           else
             (case b64_val y of
                None \<Rightarrow> None
              | Some r \<Rightarrow>
                  (if final \<and> z = CHR ''='' then
                     Some [char_of (p * 4 + q div 16), char_of ((q mod 16) * 16 + r div 4)]
                   else
                     (case b64_val z of
                        None \<Rightarrow> None
                      | Some t \<Rightarrow>
                          Some [char_of (p * 4 + q div 16),
                                char_of ((q mod 16) * 16 + r div 4),
                                char_of ((r mod 4) * 64 + t)]))))
      | _ \<Rightarrow> None)"

fun b64_quanta :: "string \<Rightarrow> bytes option" where
  "b64_quanta [] = Some []"
| "b64_quanta (w # x # y # z # rest) =
     (case b64_group w x y z (rest = []) of
        None \<Rightarrow> None
      | Some bs \<Rightarrow> (case b64_quanta rest of None \<Rightarrow> None | Some bs' \<Rightarrow> Some (bs @ bs')))"
| "b64_quanta _ = None"

text \<open>The decoder skips carriage returns and line feeds wherever they stand.\<close>

definition b64_decode :: "string \<Rightarrow> bytes option" where
  "b64_decode s = b64_quanta (filter (\<lambda>c. c \<noteq> CHR 0x0D \<and> c \<noteq> CHR 0x0A) s)"

subsection \<open>Marshal and Unmarshal of the struct\<close>

text \<open>
  \<open>Mode\<close> has the tag \<open>"-"\<close> and is never written or read. \<open>cid\<close> is left out
  when \<open>ClientID\<close> is empty.
\<close>

definition encode_Message :: "Message \<Rightarrow> json" where
  "encode_Message m =
     JObj ([(''type'', JStr (ToValidUTF8 (Type m))),
            (''payload'', (case Payload m of None \<Rightarrow> JNull | Some b \<Rightarrow> JStr (b64_encode b)))]
           @ (if ClientID m = [] then [] else [(''cid'', JStr (ToValidUTF8 (ClientID m)))]))"

datatype field = FType | FPayload | FCid

definition lower_ascii :: "char \<Rightarrow> char" where
  "lower_ascii c = (if byte_in 65 90 c then char_of ((of_char c :: nat) + 32) else c)"

text \<open>A key names a field when it equals the tag, letter case aside.\<close>

definition field_of_key :: "string \<Rightarrow> field option" where
  "field_of_key k =
     (if map lower_ascii k = ''type'' then Some FType
      else if map lower_ascii k = ''payload'' then Some FPayload
      else if map lower_ascii k = ''cid'' then Some FCid
      else None)"

definition type_error :: error where
  "type_error = Err ''json: cannot unmarshal value into Go struct field of Message''"

text \<open>
  A JSON array read into a \<open>[]byte\<close>: each element is a \<open>uint8\<close>; \<open>null\<close> leaves
  the zero byte, anything else that is not an integer from 0 to 255 is an error.
\<close>

definition elem_ok :: "json \<Rightarrow> bool" where
  "elem_ok j = (case j of JNull \<Rightarrow> True | JNum n \<Rightarrow> 0 \<le> n \<and> n \<le> 255 | _ \<Rightarrow> False)"

definition elem_byte :: "json \<Rightarrow> char" where
  "elem_byte j =
     (case j of JNum n \<Rightarrow> (if 0 \<le> n \<and> n \<le> 255 then char_of (nat n) else char_of (0 :: nat))
      | _ \<Rightarrow> char_of (0 :: nat))"

definition set_field :: "Message \<Rightarrow> field \<Rightarrow> json \<Rightarrow> error option \<times> Message" where
  "set_field m f v =
     (case f of
        FType \<Rightarrow>
          (case v of JStr s \<Rightarrow> (None, m\<lparr>Type := s\<rparr>) | JNull \<Rightarrow> (None, m)
           | _ \<Rightarrow> (Some type_error, m))
      | FCid \<Rightarrow>
          (case v of JStr s \<Rightarrow> (None, m\<lparr>ClientID := s\<rparr>) | JNull \<Rightarrow> (None, m)
           | _ \<Rightarrow> (Some type_error, m))
      | FPayload \<Rightarrow>
          (case v of
             JStr s \<Rightarrow>
               (case b64_decode s of
                  None \<Rightarrow> (Some (Err ''illegal base64 data''), m)
                | Some b \<Rightarrow> (None, m\<lparr>Payload := Some b\<rparr>))
           | JNull \<Rightarrow> (None, m\<lparr>Payload := None\<rparr>)
           | JArr xs \<Rightarrow>
               (if list_all elem_ok xs then None else Some type_error,
                m\<lparr>Payload := Some (map elem_byte xs)\<rparr>)
           | _ \<Rightarrow> (Some type_error, m)))"

text \<open>
  The members of the object are read in order, a later one overwriting an earlier one;
  a member that names no field is skipped; the first error is kept and returned at the
  end.
\<close>

fun decode_fields :: "(string \<times> json) list \<Rightarrow> Message \<Rightarrow> error option \<Rightarrow> error option \<times> Message" where
  "decode_fields [] m e = (e, m)"
| "decode_fields ((k, v) # rest) m e =
     (case field_of_key k of
        None \<Rightarrow> decode_fields rest m e
      | Some f \<Rightarrow>
          (case set_field m f v of
             (e', m') \<Rightarrow> decode_fields rest m' (case e of None \<Rightarrow> e' | Some x \<Rightarrow> Some x)))"

definition decode_Message :: "json \<Rightarrow> error + Message" where
  "decode_Message j =
     (case j of
        JNull \<Rightarrow> Inr zero_Message
      | JObj kvs \<Rightarrow>
          (case decode_fields kvs zero_Message None of
             (None, m) \<Rightarrow> Inr m
           | (Some e, m) \<Rightarrow> Inl e)
      | _ \<Rightarrow> Inl type_error)"


definition json_Marshal :: "(json \<Rightarrow> bytes) \<Rightarrow> Message \<Rightarrow> error + bytes" where
  "json_Marshal render m = Inr (render (encode_Message m))"

definition json_Unmarshal :: "(bytes \<Rightarrow> json option) \<Rightarrow> bytes \<Rightarrow> error + Message" where
  "json_Unmarshal parse data =
     (case parse data of
        None \<Rightarrow> Inl (Err ''invalid character in JSON input'')
      | Some j \<Rightarrow> decode_Message j)"

section \<open>The read side of a client\<close>

text \<open>
  \<open>handleDataMessage\<close>: on a decode error the notice goes to \<open>c.send\<close>, else the
  decoded message, stamped with the client's ID and the frame kind, goes to
  \<open>c.receive\<close>. Both branches return nil. The channel send is where the call can
  park or panic.
\<close>

definition handleDataMessage ::
  "(bytes \<Rightarrow> json option) \<Rightarrow> Client \<Rightarrow> int \<Rightarrow> bytes \<Rightarrow> (error option \<times> Client) outcome" where
  "handleDataMessage parse c messageType payload =
     (case json_Unmarshal parse payload of
        Inl err \<Rightarrow>
          (case chan_send (send c)
                  \<lparr>Mode = messageType, Type = MessageTypeError,
                   Payload = Some ''Invalid message'', ClientID = []\<rparr> of
             Ok s \<Rightarrow> Ok (None, c\<lparr>send := s\<rparr>)
           | Parked \<Rightarrow> Parked
           | Panic p \<Rightarrow> Panic p)
      | Inr msg \<Rightarrow>
          (case chan_send (receive c) (msg\<lparr>ClientID := ID c, Mode := messageType\<rparr>) of
             Ok r \<Rightarrow> Ok (None, c\<lparr>receive := r\<rparr>)
           | Parked \<Rightarrow> Parked
           | Panic p \<Rightarrow> Panic p))"

text \<open>
  \<open>handleMessage\<close>: the \<open>switch\<close> on the frame kind, in the order of the source; a
  kind that matches no case falls to the final \<open>return nil\<close>. The pong goes through
  \<open>c.conn\<close>, a nil pointer dereference if there is none.
\<close>

definition handleMessage ::
  "(bytes \<Rightarrow> json option) \<Rightarrow> Client \<Rightarrow> int \<Rightarrow> bytes \<Rightarrow> (error option \<times> Client) outcome" where
  "handleMessage parse c messageType payload =
     (if messageType = TextMessage \<or> messageType = BinaryMessage then
        handleDataMessage parse c messageType payload
      else if messageType = CloseMessage then
        Ok (Some (Err ''close message received''), c)
      else if messageType = PingMessage then
        (case conn c of
           None \<Rightarrow> Panic ''nil pointer dereference''
         | Some cn \<Rightarrow>
             (case conn_WriteMessage cn PongMessage [] of
                (err, cn') \<Rightarrow> Ok (err, c\<lparr>conn := Some cn'\<rparr>)))
      else if messageType = PongMessage then Ok (None, c)
      else Ok (None, c))"

text \<open>
  How a pump stands when the model stops following it: it returned (\<open>Exited\<close>), it
  waits for input that has not come (\<open>Waiting\<close>: the next frame for the read pump, the
  next message of an open, empty send queue for the write pump), it is parked on a
  channel send (\<open>Stuck\<close>), or it panicked (\<open>Crashed\<close>), which ends the process since
  nothing in the package recovers.
\<close>

datatype pump = Exited Client | Waiting Client | Stuck Client | Crashed string

text \<open>
  The \<open>for\<close> loop of \<open>readPump\<close>. The list holds the results of the successive
  \<open>ReadMessage\<close> calls: an error, or a frame kind with its payload. A closed
  connection gives a read error whatever the peer sent.
\<close>

fun readPump_loop ::
  "(bytes \<Rightarrow> json option) \<Rightarrow> Client \<Rightarrow> (error + (int \<times> bytes)) list \<Rightarrow> pump" where
  "readPump_loop parse c [] =
     (case conn c of
        None \<Rightarrow> Crashed ''nil pointer dereference''
      | Some cn \<Rightarrow> if cclosed cn then Exited c else Waiting c)"
| "readPump_loop parse c (r # rs) =
     (case conn c of
        None \<Rightarrow> Crashed ''nil pointer dereference''
      | Some cn \<Rightarrow>
          (if cclosed cn then Exited c
           else
             (case r of
                Inl err \<Rightarrow> Exited c
              | Inr (messageType, payload) \<Rightarrow>
                  (case handleMessage parse c messageType payload of
                     Ok (Some err, c') \<Rightarrow> Exited c'
                   | Ok (None, c') \<Rightarrow> readPump_loop parse c' rs
                   | Parked \<Rightarrow> Stuck c
                   | Panic p \<Rightarrow> Crashed p))))"

section \<open>The write side of a client\<close>

text \<open>
  \<open>writePump\<close>: \<open>for msg := range c.send\<close> takes the queued messages oldest first
  and ends when the channel is closed and empty. In both branches of the \<open>switch\<close>
  the error of \<open>json.Marshal\<close> returns from the pump, and the result of
  \<open>WriteMessage\<close> is assigned to \<open>err\<close> and not looked at again.
\<close>

fun writePump_loop :: "(json \<Rightarrow> bytes) \<Rightarrow> Client \<Rightarrow> Message list \<Rightarrow> pump" where
  "writePump_loop render c [] = (if closed (send c) then Exited c else Waiting c)"
| "writePump_loop render c (msg # queued) =
     (if Mode msg = MessageModeBinary then
        (case json_Marshal render msg of
           Inl err \<Rightarrow> Exited (c\<lparr>send := (send c)\<lparr>buf := queued\<rparr>\<rparr>)
         | Inr data \<Rightarrow>
             (case conn c of
                None \<Rightarrow> Crashed ''nil pointer dereference''
              | Some cn \<Rightarrow>
                  (case conn_WriteMessage cn BinaryMessage data of
                     (err, cn') \<Rightarrow>
                       writePump_loop render
                         (c\<lparr>send := (send c)\<lparr>buf := queued\<rparr>, conn := Some cn'\<rparr>) queued)))
      else
        (case json_Marshal render msg of
           Inl err \<Rightarrow> Exited (c\<lparr>send := (send c)\<lparr>buf := queued\<rparr>\<rparr>)
         | Inr data \<Rightarrow>
             (case conn c of
                None \<Rightarrow> Crashed ''nil pointer dereference''
              | Some cn \<Rightarrow>
                  (case conn_WriteMessage cn TextMessage data of
                     (err, cn') \<Rightarrow>
                       writePump_loop render
                         (c\<lparr>send := (send c)\<lparr>buf := queued\<rparr>, conn := Some cn'\<rparr>) queued))))"

definition writePump :: "(json \<Rightarrow> bytes) \<Rightarrow> Client \<Rightarrow> pump" where
  "writePump render c = writePump_loop render c (buf (send c))"

text \<open>
  What the proofs read off a pump: the client it holds, and the \<open>WriteMessage\<close>
  calls made on a client's connection so far, in order (kind and data).
\<close>

definition pump_client :: "pump \<Rightarrow> Client option" where
  "pump_client p =
     (case p of Exited c \<Rightarrow> Some c | Waiting c \<Rightarrow> Some c | Stuck c \<Rightarrow> Some c
      | Crashed msg \<Rightarrow> None)"

definition write_calls :: "Client \<Rightarrow> (int \<times> bytes) list" where
  "write_calls c =
     (case conn c of None \<Rightarrow> [] | Some cn \<Rightarrow> map (\<lambda>(k, d, r). (k, d)) (wlog cn))"

definition sent_frames :: "Client \<Rightarrow> (int \<times> bytes) list" where
  "sent_frames c = (case conn c of None \<Rightarrow> [] | Some cn \<Rightarrow> frames_sent cn)"

definition exited :: "pump \<Rightarrow> bool" where
  "exited p = (case p of Exited c \<Rightarrow> True | _ \<Rightarrow> False)"

section \<open>Broadcast and the goroutines it starts\<close>

text \<open>
  \<open>Broadcast\<close> copies the membership and starts, for each entry, a goroutine whose
  body is \<open>c.Writer() <- message\<close>; it returns nothing. A goroutine is the pair of
  its target and its message. \<open>SendToClients\<close> does the same for the slice it is
  given.
\<close>

type_synonym goroutine = "ptr \<times> Message"

definition Broadcast :: "Hub \<Rightarrow> Message \<Rightarrow> goroutine list" where
  "Broadcast h message = map (\<lambda>client. (client, message)) (clients h)"

definition SendToClients :: "ptr list \<Rightarrow> Message \<Rightarrow> goroutine list" where
  "SendToClients cs message = map (\<lambda>client. (client, message)) cs"

text \<open>
  The body of one such goroutine, run on the heap of clients: the send through a nil
  pointer, or on a closed channel, panics; on a full channel it parks.
\<close>

definition run_send :: "(nat \<rightharpoonup> Client) \<Rightarrow> goroutine \<Rightarrow> (nat \<rightharpoonup> Client) outcome" where
  "run_send heap g =
     (case fst g of
        Null \<Rightarrow> Panic ''nil pointer dereference''
      | Addr a \<Rightarrow>
          (case heap a of
             None \<Rightarrow> Panic ''nil pointer dereference''
           | Some c \<Rightarrow>
               (case chan_send (Writer c) (snd g) of
                  Ok s \<Rightarrow> Ok (heap(a \<mapsto> c\<lparr>send := s\<rparr>))
                | Parked \<Rightarrow> Parked
                | Panic p \<Rightarrow> Panic p)))"

text \<open>
  The process: it lives, with the heap of clients and the goroutines started by
  \<open>Broadcast\<close> whose send has not completed yet (not run so far, or parked on a full
  queue), or it is dead. No goroutine of the package has a \<open>recover\<close>, so a panic in
  any of them ends the process.
\<close>

datatype process = Alive "nat \<rightharpoonup> Client" "goroutine list" | Dead string

text \<open>
  What the scheduler can let happen next, in any order and any number of times:
  a pending send gets a turn (\<open>Run\<close>; a send parked on a full queue is retried the
  same way, which is also how a sender woken by \<open>close\<close> comes to panic); some goroutine
  calls \<open>Close\<close> on the client at an address (\<open>CloseOf\<close>: the deferred cleanup of
  its read pump, or \<open>Hub.Close\<close>); the write pump of a client takes the oldest
  message off its send queue (\<open>Drain\<close>); another send is started (\<open>Spawn\<close>: a
  later \<open>Broadcast\<close> or \<open>SendToClients\<close>).
\<close>

datatype event = Run goroutine | CloseOf nat | Drain nat | Spawn goroutine

fun step :: "process \<Rightarrow> event \<Rightarrow> process" where
  "step (Dead msg) e = Dead msg"
| "step (Alive heap pending) (Run g) =
     (if g \<in> set pending then
        (case run_send heap g of
           Ok heap' \<Rightarrow> Alive heap' (remove1 g pending)
         | Parked \<Rightarrow> Alive heap pending
         | Panic p \<Rightarrow> Dead p)
      else Alive heap pending)"
| "step (Alive heap pending) (CloseOf a) =
     (case heap a of
        None \<Rightarrow> Alive heap pending
      | Some c \<Rightarrow>
          (case Close c of
             Ok c' \<Rightarrow> Alive (heap(a \<mapsto> c')) pending
           | Parked \<Rightarrow> Alive heap pending
           | Panic p \<Rightarrow> Dead p))"
| "step (Alive heap pending) (Drain a) =
     (case heap a of
        None \<Rightarrow> Alive heap pending
      | Some c \<Rightarrow> Alive (heap(a \<mapsto> c\<lparr>send := (send c)\<lparr>buf := tl (buf (send c))\<rparr>\<rparr>)) pending)"
| "step (Alive heap pending) (Spawn g) = Alive heap (pending @ [g])"

text \<open>
  The process after the goroutines \<open>gs\<close> have been started on \<open>heap\<close> and the
  events \<open>es\<close> have happened, in that order.
\<close>

definition run_events :: "(nat \<rightharpoonup> Client) \<Rightarrow> goroutine list \<Rightarrow> event list \<Rightarrow> process" where
  "run_events heap gs es = foldl step (Alive heap gs) es"

definition crashed :: "process \<Rightarrow> bool" where
  "crashed p = (case p of Dead msg \<Rightarrow> True | Alive heap pending \<Rightarrow> False)"

text \<open>A client is sealed when its send queue has been closed.\<close>

definition sealed :: "(nat \<rightharpoonup> Client) \<Rightarrow> ptr \<Rightarrow> bool" where
  "sealed heap p =
     (case p of Null \<Rightarrow> False
      | Addr a \<Rightarrow> (case heap a of None \<Rightarrow> False | Some c \<Rightarrow> closed (send c)))"

text \<open>
  The process is dead, or the send \<open>g\<close> is still pending and its target is sealed.
\<close>

definition doomed :: "goroutine \<Rightarrow> process \<Rightarrow> bool" where
  "doomed g p =
     (case p of
        Dead msg \<Rightarrow> True
      | Alive heap pending \<Rightarrow> g \<in> set pending \<and> sealed heap (fst g))"

section \<open>Closing: Hub.Close and the deferred cleanup of the read pump\<close>

text \<open>
  \<open>Hub.Close\<close> calls \<open>Close\<close> on every member in turn and then drops the
  membership. \<open>readPump\<close> is the loop together with its deferred function, which runs
  when the loop returns: \<open>c.hub.RemoveClient(c)\<close>, then \<open>c.Close()\<close>; \<open>h\<close> is the
  hub \<open>c.hub\<close> points to and \<open>a\<close> the address of the client itself.
\<close>

fun Hub_Close_loop :: "(nat \<rightharpoonup> Client) \<Rightarrow> ptr list \<Rightarrow> (nat \<rightharpoonup> Client) outcome" where
  "Hub_Close_loop heap [] = Ok heap"
| "Hub_Close_loop heap (p # ps) =
     (case p of
        Null \<Rightarrow> Panic ''nil pointer dereference''
      | Addr a \<Rightarrow>
          (case heap a of
             None \<Rightarrow> Panic ''nil pointer dereference''
           | Some c \<Rightarrow>
               (case Close c of
                  Ok c' \<Rightarrow> Hub_Close_loop (heap(a \<mapsto> c')) ps
                | Parked \<Rightarrow> Parked
                | Panic msg \<Rightarrow> Panic msg)))"

definition Hub_Close :: "Hub \<Rightarrow> (nat \<rightharpoonup> Client) \<Rightarrow> (Hub \<times> (nat \<rightharpoonup> Client)) outcome" where
  "Hub_Close h heap =
     (case Hub_Close_loop heap (clients h) of
        Ok heap' \<Rightarrow> Ok (h\<lparr>clients := []\<rparr>, heap')
      | Parked \<Rightarrow> Parked
      | Panic msg \<Rightarrow> Panic msg)"

definition readPump ::
  "(bytes \<Rightarrow> json option) \<Rightarrow> Hub \<Rightarrow> nat \<Rightarrow> Client \<Rightarrow> (error + (int \<times> bytes)) list \<Rightarrow> Hub \<times> pump" where
  "readPump parse h a c frames =
     (case readPump_loop parse c frames of
        Exited c' \<Rightarrow>
          (case Close c' of
             Ok c'' \<Rightarrow> (RemoveClient h (Addr a), Exited c'')
           | Parked \<Rightarrow> (RemoveClient h (Addr a), Stuck c')
           | Panic msg \<Rightarrow> (RemoveClient h (Addr a), Crashed msg))
      | Waiting c' \<Rightarrow> (h, Waiting c')
      | Stuck c' \<Rightarrow> (h, Stuck c')
      | Crashed msg \<Rightarrow> (RemoveClient h (Addr a), Crashed msg))"

section \<open>Properties of the hub membership\<close>

lemma RemoveClient_loop_absent:
  "client \<notin> set rest \<Longrightarrow> RemoveClient_loop cs client i rest = cs"
  by (induction rest arbitrary: i) auto

lemma RemoveClient_loop_first:
  "client \<notin> set mid \<Longrightarrow>
   RemoveClient_loop (done @ mid @ client # post) client (length done) (mid @ client # post)
     = done @ mid @ post"
proof (induction mid arbitrary: "done")
  case Nil
  then show ?case by simp
next
  case (Cons c mid)
  have "RemoveClient_loop ((done @ [c]) @ mid @ client # post) client (length (done @ [c]))
          (mid @ client # post) = (done @ [c]) @ mid @ post"
    using Cons.prems by (intro Cons.IH) simp
  with Cons.prems show ?case by auto
qed

text \<open>
  Claim C8. \<open>AddClient\<close> with a nil client returns an error and leaves the membership
  as it was; with a non-nil client it returns no error and appends exactly that one entry
  at the end; nothing looks for duplicates, so adding the same client twice leaves two
  more entries for it.
\<close>

theorem AddClient_membership:
  "AddClient h Null = (Some (Err ''client cannot be nil''), h) \<and>
   AddClient h (Addr a) = (None, h\<lparr>clients := clients h @ [Addr a]\<rparr>) \<and>
   length (clients (snd (AddClient h (Addr a)))) = length (clients h) + 1 \<and>
   fst (AddClient (snd (AddClient h (Addr a))) (Addr a)) = None \<and>
   clients (snd (AddClient (snd (AddClient h (Addr a))) (Addr a)))
     = clients h @ [Addr a, Addr a] \<and>
   count_list (clients (snd (AddClient (snd (AddClient h (Addr a))) (Addr a)))) (Addr a)
     = count_list (clients h) (Addr a) + 2"
  by (simp add: AddClient_def)

text \<open>
  Claim C9. \<open>RemoveClient\<close> leaves the hub as it was when the client is nil or is not a
  member. Otherwise it removes the first entry equal to the client and nothing else: with
  the membership split at that first entry as \<open>pre @ client # post\<close>, the result is
  \<open>pre @ post\<close>, so the other entries keep their order and a second entry for the same
  client (in \<open>post\<close>) stays.
\<close>

theorem RemoveClient_first_match:
  "(client = Null \<or> client \<notin> set (clients h) \<longrightarrow> RemoveClient h client = h) \<and>
   (client \<noteq> Null \<and> clients h = pre @ client # post \<and> client \<notin> set pre \<longrightarrow>
      clients (RemoveClient h client) = pre @ post \<and>
      count_list (clients (RemoveClient h client)) client + 1
        = count_list (clients h) client)"
proof (intro conjI impI)
  assume "client = Null \<or> client \<notin> set (clients h)"
  then show "RemoveClient h client = h"
    by (auto simp: RemoveClient_def RemoveClient_loop_absent)
next
  assume a: "client \<noteq> Null \<and> clients h = pre @ client # post \<and> client \<notin> set pre"
  then have "RemoveClient_loop ([] @ pre @ client # post) client (length ([] :: ptr list))
               (pre @ client # post) = [] @ pre @ post"
    by (intro RemoveClient_loop_first) simp
  with a show r: "clients (RemoveClient h client) = pre @ post"
    by (simp add: RemoveClient_def)
  from a show "count_list (clients (RemoveClient h client)) client + 1
        = count_list (clients h) client"
    by (simp add: r)
qed

theorem RemoveClient_first_match_witness:
  "RemoveClient \<lparr>clients = [Addr 1, Addr 2, Addr 1]\<rparr> Null
     = \<lparr>clients = [Addr 1, Addr 2, Addr 1]\<rparr> \<and>
   RemoveClient \<lparr>clients = [Addr 1, Addr 2, Addr 1]\<rparr> (Addr 3)
     = \<lparr>clients = [Addr 1, Addr 2, Addr 1]\<rparr> \<and>
   clients (RemoveClient \<lparr>clients = [Addr 2, Addr 1, Addr 3, Addr 1]\<rparr> (Addr 1))
     = [Addr 2, Addr 3, Addr 1] \<and>
   count_list (clients (RemoveClient \<lparr>clients = [Addr 2, Addr 1, Addr 3, Addr 1]\<rparr> (Addr 1)))
     (Addr 1) = 1"
  using RemoveClient_first_match [of Null "\<lparr>clients = [Addr 1, Addr 2, Addr 1]\<rparr>" "[]" "[]"]
    RemoveClient_first_match [of "Addr 3" "\<lparr>clients = [Addr 1, Addr 2, Addr 1]\<rparr>" "[]" "[]"]
    RemoveClient_first_match [of "Addr 1" "\<lparr>clients = [Addr 2, Addr 1, Addr 3, Addr 1]\<rparr>"
      "[Addr 2]" "[Addr 3, Addr 1]"]
  by simp

section \<open>Properties of the JSON envelope\<close>

subsection \<open>Base64 decodes what it encoded\<close>
























subsection \<open>The round trip of a Message\<close>







text \<open>An envelope as it is written: the payload \<open>hi\<close> travels as \<open>aGk=\<close>.\<close>

lemma encode_example:
  "encode_Message \<lparr>Mode = 2, Type = ''chat'', Payload = Some ''hi'', ClientID = ''user123''\<rparr>
     = JObj [(''type'', JStr ''chat''), (''payload'', JStr ''aGk=''), (''cid'', JStr ''user123'')]"
  by code_simp

section \<open>Properties of the read side\<close>

text \<open>
  Claim C10. A frame whose kind is none of text, binary, close, ping and pong matches no
  case of the \<open>switch\<close>: \<open>handleMessage\<close> returns nil and the client is as it
  was (nothing queued on either channel, nothing written to the connection). The read
  pump goes on from the same state: the frames that follow are read as if the unknown
  one had not come, the next one is handed to \<open>handleMessage\<close>, and when it is a
  data frame that decodes its message is queued on the receive queue.
\<close>

theorem handleMessage_unknown_kind:
  "messageType \<noteq> TextMessage \<Longrightarrow> messageType \<noteq> BinaryMessage \<Longrightarrow>
   messageType \<noteq> CloseMessage \<Longrightarrow> messageType \<noteq> PingMessage \<Longrightarrow>
   messageType \<noteq> PongMessage \<Longrightarrow>
   handleMessage parse c messageType payload = Ok (None, c) \<and>
   readPump_loop parse c (Inr (messageType, payload) # rs) = readPump_loop parse c rs \<and>
   (conn c = Some cn \<and> \<not> cclosed cn \<longrightarrow>
      readPump_loop parse c (Inr (messageType, payload) # Inr (messageType', payload') # rs)
        = (case handleMessage parse c messageType' payload' of
             Ok (Some err, c') \<Rightarrow> Exited c'
           | Ok (None, c') \<Rightarrow> readPump_loop parse c' rs
           | Parked \<Rightarrow> Stuck c
           | Panic p \<Rightarrow> Crashed p)) \<and>
   (conn c = Some cn \<and> \<not> cclosed cn \<and>
    json_Unmarshal parse payload' = Inr msg \<and>
    (messageType' = TextMessage \<or> messageType' = BinaryMessage) \<and>
    \<not> closed (receive c) \<and> length (buf (receive c)) < chan_cap \<longrightarrow>
      readPump_loop parse c (Inr (messageType, payload) # Inr (messageType', payload') # rs)
        = readPump_loop parse
            (c\<lparr>receive := (receive c)
                \<lparr>buf := buf (receive c) @ [msg\<lparr>ClientID := ID c, Mode := messageType'\<rparr>]\<rparr>\<rparr>)
            rs)"
proof (intro conjI impI)
  assume k: "messageType \<noteq> TextMessage" "messageType \<noteq> BinaryMessage"
    "messageType \<noteq> CloseMessage" "messageType \<noteq> PingMessage" "messageType \<noteq> PongMessage"
  from k show h: "handleMessage parse c messageType payload = Ok (None, c)"
    by (simp add: handleMessage_def)
  show skip: "readPump_loop parse c (Inr (messageType, payload) # rs) = readPump_loop parse c rs"
    for rs
    by (cases rs) (auto simp: h split: option.splits)
  {
    assume "conn c = Some cn \<and> \<not> cclosed cn"
    then show "readPump_loop parse c
          (Inr (messageType, payload) # Inr (messageType', payload') # rs)
        = (case handleMessage parse c messageType' payload' of
             Ok (Some err, c') \<Rightarrow> Exited c'
           | Ok (None, c') \<Rightarrow> readPump_loop parse c' rs
           | Parked \<Rightarrow> Stuck c
           | Panic p \<Rightarrow> Crashed p)"
      unfolding skip by simp
  }
  {
    assume "conn c = Some cn \<and> \<not> cclosed cn \<and>
      json_Unmarshal parse payload' = Inr msg \<and>
      (messageType' = TextMessage \<or> messageType' = BinaryMessage) \<and>
      \<not> closed (receive c) \<and> length (buf (receive c)) < chan_cap"
    then show "readPump_loop parse c
          (Inr (messageType, payload) # Inr (messageType', payload') # rs)
        = readPump_loop parse
            (c\<lparr>receive := (receive c)
                \<lparr>buf := buf (receive c) @ [msg\<lparr>ClientID := ID c, Mode := messageType'\<rparr>]\<rparr>\<rparr>)
            rs"
      unfolding skip
      by (auto simp: handleDataMessage_def handleMessage_def chan_send_def)
  }
qed

theorem handleMessage_unknown_kind_witness:
  \<open>handleMessage
     (\<lambda>b. if b = ''{"type":"chat","payload":"aGk="}''
          then Some (JObj [(''type'', JStr ''chat''), (''payload'', JStr ''aGk='')])
          else None)
     (NewClient ''user123'' (Some \<lparr>wlog = [], wfail = [], cclosed = False\<rparr>) (Addr 0)) 3 ''x''
     = Ok (None, NewClient ''user123'' (Some \<lparr>wlog = [], wfail = [], cclosed = False\<rparr>) (Addr 0)) \<and>
   readPump_loop
     (\<lambda>b. if b = ''{"type":"chat","payload":"aGk="}''
          then Some (JObj [(''type'', JStr ''chat''), (''payload'', JStr ''aGk='')])
          else None)
     (NewClient ''user123'' (Some \<lparr>wlog = [], wfail = [], cclosed = False\<rparr>) (Addr 0))
     [Inr (3, ''x''), Inr (1, ''{"type":"chat","payload":"aGk="}'')]
   = Waiting
       \<lparr>ID = ''user123'', conn = Some \<lparr>wlog = [], wfail = [], cclosed = False\<rparr>,
        send = \<lparr>buf = [], closed = False\<rparr>,
        receive = \<lparr>buf = [\<lparr>Mode = 1, Type = ''chat'', Payload = Some ''hi'',
                             ClientID = ''user123''\<rparr>], closed = False\<rparr>,
        hub = Addr 0\<rparr>\<close>
proof -
  let ?parse = \<open>\<lambda>b. if b = ''{"type":"chat","payload":"aGk="}''
          then Some (JObj [(''type'', JStr ''chat''), (''payload'', JStr ''aGk='')])
          else None\<close>
  let ?c = "NewClient ''user123'' (Some \<lparr>wlog = [], wfail = [], cclosed = False\<rparr>) (Addr 0)"
  have good: \<open>json_Unmarshal ?parse ''{"type":"chat","payload":"aGk="}''
      = Inr \<lparr>Mode = 0, Type = ''chat'', Payload = Some ''hi'', ClientID = []\<rparr>\<close>
    by code_simp
  have k: "(3 :: int) \<noteq> TextMessage" "(3 :: int) \<noteq> BinaryMessage" "(3 :: int) \<noteq> CloseMessage"
    "(3 :: int) \<noteq> PingMessage" "(3 :: int) \<noteq> PongMessage"
    by (simp_all add: TextMessage_def BinaryMessage_def CloseMessage_def PingMessage_def
        PongMessage_def)
  have kind: "(1 :: int) = TextMessage \<or> (1 :: int) = BinaryMessage"
    by (simp add: TextMessage_def)
  have rq: "\<not> closed (receive ?c)" "length (buf (receive ?c)) < chan_cap"
    and cn: "conn ?c = Some \<lparr>wlog = [], wfail = [], cclosed = False\<rparr>"
      "\<not> cclosed \<lparr>wlog = [], wfail = [], cclosed = False\<rparr>"
    by (simp_all add: NewClient_def make_chan_def chan_cap_def)
  note th = handleMessage_unknown_kind [OF k,
      where parse = ?parse and c = ?c and payload = "''x''"
        and cn = "\<lparr>wlog = [], wfail = [], cclosed = False\<rparr>"
        and payload' = \<open>''{"type":"chat","payload":"aGk="}''\<close> and messageType' = 1 and rs = "[]"
        and msg = "\<lparr>Mode = 0, Type = ''chat'', Payload = Some ''hi'', ClientID = []\<rparr>"]
  from th have h: "handleMessage ?parse ?c 3 ''x'' = Ok (None, ?c)"
    by blast
  from th good kind rq cn
  have eq: \<open>readPump_loop ?parse ?c
      [Inr (3, ''x''), Inr (1, ''{"type":"chat","payload":"aGk="}'')]
    = readPump_loop ?parse
        (?c\<lparr>receive := (receive ?c)\<lparr>buf := buf (receive ?c) @
                [\<lparr>Mode = 0, Type = ''chat'', Payload = Some ''hi'', ClientID = []\<rparr>
                   \<lparr>ClientID := ID ?c, Mode := 1\<rparr>]\<rparr>\<rparr>) []\<close>
    by blast
  show ?thesis
    unfolding eq h by (simp add: NewClient_def make_chan_def)
qed

text \<open>
  The two channel sends of \<open>handleDataMessage\<close> are ordinary Go sends: on a channel
  that \<open>Close\<close> has closed they panic, on a full one they park.
\<close>

lemma handleDataMessage_on_sealed_queue:
  "json_Unmarshal parse payload = Inl e \<Longrightarrow> closed (send c) \<Longrightarrow>
   handleDataMessage parse c messageType payload = Panic ''send on closed channel''"
  by (simp add: handleDataMessage_def chan_send_def)

lemma handleDataMessage_on_full_queue:
  "json_Unmarshal parse payload = Inl e \<Longrightarrow> \<not> closed (send c) \<Longrightarrow>
   length (buf (send c)) = chan_cap \<Longrightarrow>
   handleDataMessage parse c messageType payload = Parked"
  by (simp add: handleDataMessage_def chan_send_def)

text \<open>
  Claim C7 (as stated it fails; amended here). For a client whose receive queue is open
  and holds fewer than 256 messages: when the payload of a text or binary frame decodes,
  the decoded message goes to the receive queue, at its end, with \<open>ClientID\<close>
  overwritten by the client's own ID and \<open>Mode\<close> set to the kind of the frame; the
  call returns nil and nothing else in the client changes.
\<close>

theorem handleDataMessage_decoded:
  "json_Unmarshal parse payload = Inr msg \<Longrightarrow>
   messageType = TextMessage \<or> messageType = BinaryMessage \<Longrightarrow>
   \<not> closed (receive c) \<Longrightarrow> length (buf (receive c)) < chan_cap \<Longrightarrow>
   handleDataMessage parse c messageType payload
     = Ok (None, c\<lparr>receive := (receive c)
             \<lparr>buf := buf (receive c) @ [msg\<lparr>ClientID := ID c, Mode := messageType\<rparr>]\<rparr>\<rparr>) \<and>
   handleMessage parse c messageType payload
     = handleDataMessage parse c messageType payload"
  by (auto simp: handleDataMessage_def handleMessage_def chan_send_def)

theorem handleDataMessage_decoded_witness:
  \<open>handleMessage
     (\<lambda>b. if b = ''{"type":"chat","payload":"aGk=","cid":"spoofed"}''
          then Some (JObj [(''type'', JStr ''chat''), (''payload'', JStr ''aGk=''),
                           (''cid'', JStr ''spoofed'')])
          else None)
     (NewClient ''user123'' (Some \<lparr>wlog = [], wfail = [], cclosed = False\<rparr>) (Addr 0))
     2 ''{"type":"chat","payload":"aGk=","cid":"spoofed"}''
   = Ok (None,
       \<lparr>ID = ''user123'', conn = Some \<lparr>wlog = [], wfail = [], cclosed = False\<rparr>,
        send = \<lparr>buf = [], closed = False\<rparr>,
        receive = \<lparr>buf = [\<lparr>Mode = 2, Type = ''chat'', Payload = Some ''hi'',
                             ClientID = ''user123''\<rparr>], closed = False\<rparr>,
        hub = Addr 0\<rparr>)\<close>
proof -
  let ?parse = \<open>\<lambda>b. if b = ''{"type":"chat","payload":"aGk=","cid":"spoofed"}''
          then Some (JObj [(''type'', JStr ''chat''), (''payload'', JStr ''aGk=''),
                           (''cid'', JStr ''spoofed'')])
          else None\<close>
  have d: \<open>json_Unmarshal ?parse ''{"type":"chat","payload":"aGk=","cid":"spoofed"}''
      = Inr \<lparr>Mode = 0, Type = ''chat'', Payload = Some ''hi'', ClientID = ''spoofed''\<rparr>\<close>
    by code_simp
  show ?thesis
    using handleDataMessage_decoded [OF d, of 2
        "NewClient ''user123'' (Some \<lparr>wlog = [], wfail = [], cclosed = False\<rparr>) (Addr 0)"]
    by (simp add: NewClient_def make_chan_def chan_cap_def TextMessage_def BinaryMessage_def)
qed

text \<open>
  The claim as stated, for every client, fails on a receive queue that is full: the
  handler parks in the send and nothing is queued (no code of the repository takes
  messages off \<open>Reader()\<close>, so the 257th decodable frame stays there). It fails too
  on a receive queue that \<open>Close\<close> has sealed: the send panics.
\<close>

theorem handleDataMessage_decoded_counterexample:
  \<open>handleMessage
     (\<lambda>b. if b = ''{"type":"chat","payload":"aGk="}''
          then Some (JObj [(''type'', JStr ''chat''), (''payload'', JStr ''aGk='')])
          else None)
     \<lparr>ID = ''user123'', conn = Some \<lparr>wlog = [], wfail = [], cclosed = False\<rparr>,
      send = \<lparr>buf = [], closed = False\<rparr>,
      receive = \<lparr>buf = replicate 256
                   \<lparr>Mode = 1, Type = ''chat'', Payload = Some ''hi'', ClientID = ''user123''\<rparr>,
                 closed = False\<rparr>,
      hub = Addr 0\<rparr>
     1 ''{"type":"chat","payload":"aGk="}''
   = Parked \<and>
   handleMessage
     (\<lambda>b. if b = ''{"type":"chat","payload":"aGk="}''
          then Some (JObj [(''type'', JStr ''chat''), (''payload'', JStr ''aGk='')])
          else None)
     \<lparr>ID = ''user123'', conn = Some \<lparr>wlog = [], wfail = [], cclosed = True\<rparr>,
      send = \<lparr>buf = [], closed = True\<rparr>, receive = \<lparr>buf = [], closed = True\<rparr>,
      hub = Addr 0\<rparr>
     1 ''{"type":"chat","payload":"aGk="}''
   = Panic ''send on closed channel''\<close>
proof -
  let ?parse = \<open>\<lambda>b. if b = ''{"type":"chat","payload":"aGk="}''
          then Some (JObj [(''type'', JStr ''chat''), (''payload'', JStr ''aGk='')])
          else None\<close>
  have good: \<open>json_Unmarshal ?parse ''{"type":"chat","payload":"aGk="}''
      = Inr \<lparr>Mode = 0, Type = ''chat'', Payload = Some ''hi'', ClientID = []\<rparr>\<close>
    by code_simp
  show ?thesis
    by (simp add: handleMessage_def handleDataMessage_def good chan_send_def chan_cap_def
        TextMessage_def)
qed

text \<open>
  Claim C3 (as stated it fails; amended here). For a client whose send queue is open and
  holds fewer than 256 messages: when the payload of a text or binary frame does not
  decode, one message of type \<open>error\<close> is appended to the client's own send queue
  and the receive queue is untouched; the handler returns nil, so with the connection
  open the read pump goes on with the next frame; and a frame that follows and decodes
  is queued on the receive queue (open, with room) as usual.
\<close>

theorem handleMessage_undecodable:
  "json_Unmarshal parse payload = Inl e \<Longrightarrow>
   messageType = TextMessage \<or> messageType = BinaryMessage \<Longrightarrow>
   \<not> closed (send c) \<Longrightarrow> length (buf (send c)) < chan_cap \<Longrightarrow>
   handleMessage parse c messageType payload
     = Ok (None, c\<lparr>send := (send c)
             \<lparr>buf := buf (send c) @
                [\<lparr>Mode = messageType, Type = ''error'',
                  Payload = Some ''Invalid message'', ClientID = []\<rparr>]\<rparr>\<rparr>) \<and>
   (conn c = Some cn \<and> \<not> cclosed cn \<longrightarrow>
    readPump_loop parse c (Inr (messageType, payload) # rs)
     = readPump_loop parse
         (c\<lparr>send := (send c)
             \<lparr>buf := buf (send c) @
                [\<lparr>Mode = messageType, Type = ''error'',
                  Payload = Some ''Invalid message'', ClientID = []\<rparr>]\<rparr>\<rparr>) rs) \<and>
   (conn c = Some cn \<and> \<not> cclosed cn \<and>
    json_Unmarshal parse payload' = Inr msg \<and>
    (messageType' = TextMessage \<or> messageType' = BinaryMessage) \<and>
    \<not> closed (receive c) \<and> length (buf (receive c)) < chan_cap \<longrightarrow>
    readPump_loop parse c (Inr (messageType, payload) # Inr (messageType', payload') # rs)
     = readPump_loop parse
         (c\<lparr>send := (send c)
             \<lparr>buf := buf (send c) @
                [\<lparr>Mode = messageType, Type = ''error'',
                  Payload = Some ''Invalid message'', ClientID = []\<rparr>]\<rparr>,
            receive := (receive c)
             \<lparr>buf := buf (receive c) @ [msg\<lparr>ClientID := ID c, Mode := messageType'\<rparr>]\<rparr>\<rparr>) rs)"
  by (auto simp: handleDataMessage_def handleMessage_def chan_send_def MessageTypeError_def)

text \<open>
  The claim as stated, for every client, fails on a send queue that \<open>Close\<close> has
  sealed (the state \<open>Hub.Close\<close> leaves a client in while a frame it has read is
  still being handled): the send of the notice panics. It fails too on a full send
  queue: the handler parks and nothing is queued.
\<close>

theorem handleMessage_undecodable_counterexample:
  "handleMessage (\<lambda>b. None)
     \<lparr>ID = ''user123'', conn = Some \<lparr>wlog = [], wfail = [], cclosed = True\<rparr>,
      send = \<lparr>buf = [], closed = True\<rparr>, receive = \<lparr>buf = [], closed = True\<rparr>,
      hub = Addr 0\<rparr>
     1 ''not json''
   = Panic ''send on closed channel'' \<and>
   handleMessage (\<lambda>b. None)
     \<lparr>ID = ''user123'', conn = Some \<lparr>wlog = [], wfail = [], cclosed = False\<rparr>,
      send = \<lparr>buf = replicate 256
                \<lparr>Mode = 1, Type = ''message'', Payload = Some ''hello'', ClientID = []\<rparr>,
              closed = False\<rparr>,
      receive = \<lparr>buf = [], closed = False\<rparr>,
      hub = Addr 0\<rparr>
     1 ''not json''
   = Parked"
  by (simp add: handleMessage_def handleDataMessage_def json_Unmarshal_def chan_send_def
      chan_cap_def TextMessage_def)

theorem handleMessage_undecodable_witness:
  \<open>readPump_loop
     (\<lambda>b. if b = ''{"type":"chat","payload":"aGk="}''
          then Some (JObj [(''type'', JStr ''chat''), (''payload'', JStr ''aGk='')])
          else None)
     (NewClient ''user123'' (Some \<lparr>wlog = [], wfail = [], cclosed = False\<rparr>) (Addr 0))
     [Inr (1, ''not json''), Inr (1, ''{"type":"chat","payload":"aGk="}'')]
   = Waiting
       \<lparr>ID = ''user123'', conn = Some \<lparr>wlog = [], wfail = [], cclosed = False\<rparr>,
        send = \<lparr>buf = [\<lparr>Mode = 1, Type = ''error'', Payload = Some ''Invalid message'',
                          ClientID = []\<rparr>], closed = False\<rparr>,
        receive = \<lparr>buf = [\<lparr>Mode = 1, Type = ''chat'', Payload = Some ''hi'',
                             ClientID = ''user123''\<rparr>], closed = False\<rparr>,
        hub = Addr 0\<rparr>\<close>
proof -
  let ?parse = \<open>\<lambda>b. if b = ''{"type":"chat","payload":"aGk="}''
          then Some (JObj [(''type'', JStr ''chat''), (''payload'', JStr ''aGk='')])
          else None\<close>
  let ?c = "NewClient ''user123'' (Some \<lparr>wlog = [], wfail = [], cclosed = False\<rparr>) (Addr 0)"
  have bad: \<open>json_Unmarshal ?parse ''not json'' = Inl (Err ''invalid character in JSON input'')\<close>
    by (simp add: json_Unmarshal_def)
  have good: \<open>json_Unmarshal ?parse ''{"type":"chat","payload":"aGk="}''
      = Inr \<lparr>Mode = 0, Type = ''chat'', Payload = Some ''hi'', ClientID = []\<rparr>\<close>
    by code_simp
  have kind: "(1 :: int) = TextMessage \<or> (1 :: int) = BinaryMessage"
    by (simp add: TextMessage_def)
  have sq: "\<not> closed (send ?c)" "length (buf (send ?c)) < chan_cap"
    and rq: "\<not> closed (receive ?c)" "length (buf (receive ?c)) < chan_cap"
    and cn: "conn ?c = Some \<lparr>wlog = [], wfail = [], cclosed = False\<rparr>"
      "\<not> cclosed \<lparr>wlog = [], wfail = [], cclosed = False\<rparr>"
    by (simp_all add: NewClient_def make_chan_def chan_cap_def)
  from handleMessage_undecodable [OF bad kind sq,
      where cn = "\<lparr>wlog = [], wfail = [], cclosed = False\<rparr>"
        and payload' = \<open>''{"type":"chat","payload":"aGk="}''\<close> and messageType' = 1 and rs = "[]"
        and msg = "\<lparr>Mode = 0, Type = ''chat'', Payload = Some ''hi'', ClientID = []\<rparr>"]
    good kind rq cn
  have eq: \<open>readPump_loop ?parse ?c
      [Inr (1, ''not json''), Inr (1, ''{"type":"chat","payload":"aGk="}'')]
    = readPump_loop ?parse
        (?c\<lparr>send := (send ?c)\<lparr>buf := buf (send ?c) @
                [\<lparr>Mode = 1, Type = ''error'', Payload = Some ''Invalid message'',
                  ClientID = []\<rparr>]\<rparr>,
            receive := (receive ?c)\<lparr>buf := buf (receive ?c) @
                [\<lparr>Mode = 0, Type = ''chat'', Payload = Some ''hi'', ClientID = []\<rparr>
                   \<lparr>ClientID := ID ?c, Mode := 1\<rparr>]\<rparr>\<rparr>) []\<close>
    by blast
  show ?thesis
    unfolding eq by (simp add: NewClient_def make_chan_def)
qed

section \<open>Properties of the write side\<close>

lemma writePump_loop_step:
  "conn c = Some cn \<Longrightarrow>
   writePump_loop render c (m # msgs)
     = writePump_loop render
         (c\<lparr>send := (send c)\<lparr>buf := msgs\<rparr>,
            conn := Some (snd (conn_WriteMessage cn
               (if Mode m = MessageModeBinary then BinaryMessage else TextMessage)
               (render (encode_Message m))))\<rparr>) msgs"
  by (simp add: json_Marshal_def split: prod.splits)

lemma conn_WriteMessage_log:
  "map (\<lambda>(k, d, r). (k, d)) (wlog (snd (conn_WriteMessage cn k d)))
     = map (\<lambda>(k, d, r). (k, d)) (wlog cn) @ [(k, d)]"
  by (simp add: conn_WriteMessage_def split: list.splits)

lemma conn_WriteMessage_ok:
  "wfail cn = [] \<Longrightarrow> \<not> cclosed cn \<Longrightarrow>
   conn_WriteMessage cn k d = (None, cn\<lparr>wlog := wlog cn @ [(k, d, None)]\<rparr>)"
  by (simp add: conn_WriteMessage_def)

lemma writePump_loop_calls:
  "conn c = Some cn \<Longrightarrow>
   map_option write_calls (pump_client (writePump_loop render c msgs))
     = Some (write_calls c @
         map (\<lambda>m. (if Mode m = MessageModeBinary then BinaryMessage else TextMessage,
                    render (encode_Message m))) msgs)"
proof (induction msgs arbitrary: c cn)
  case Nil
  then show ?case by (simp add: pump_client_def)
next
  case (Cons m msgs)
  let ?k = "if Mode m = MessageModeBinary then BinaryMessage else TextMessage"
  let ?cn = "snd (conn_WriteMessage cn ?k (render (encode_Message m)))"
  let ?c = "c\<lparr>send := (send c)\<lparr>buf := msgs\<rparr>, conn := Some ?cn\<rparr>"
  have "map_option write_calls (pump_client (writePump_loop render ?c msgs))
     = Some (write_calls ?c @
         map (\<lambda>m. (if Mode m = MessageModeBinary then BinaryMessage else TextMessage,
                    render (encode_Message m))) msgs)"
    by (rule Cons.IH [of ?c ?cn]) simp
  moreover have "write_calls ?c = write_calls c @ [(?k, render (encode_Message m))]"
    using Cons.prems by (simp add: write_calls_def conn_WriteMessage_log)
  ultimately show ?case
    unfolding writePump_loop_step [OF Cons.prems] by simp
qed

lemma writePump_loop_sent:
  "conn c = Some cn \<Longrightarrow> wfail cn = [] \<Longrightarrow> \<not> cclosed cn \<Longrightarrow>
   map_option sent_frames (pump_client (writePump_loop render c msgs))
     = Some (sent_frames c @
         map (\<lambda>m. (if Mode m = MessageModeBinary then BinaryMessage else TextMessage,
                    render (encode_Message m))) msgs)"
proof (induction msgs arbitrary: c cn)
  case Nil
  then show ?case by (simp add: pump_client_def)
next
  case (Cons m msgs)
  let ?k = "if Mode m = MessageModeBinary then BinaryMessage else TextMessage"
  let ?cn = "snd (conn_WriteMessage cn ?k (render (encode_Message m)))"
  let ?c = "c\<lparr>send := (send c)\<lparr>buf := msgs\<rparr>, conn := Some ?cn\<rparr>"
  have cn: "?cn = cn\<lparr>wlog := wlog cn @ [(?k, render (encode_Message m), None)]\<rparr>"
    using Cons.prems by (simp add: conn_WriteMessage_ok)
  have "map_option sent_frames (pump_client (writePump_loop render ?c msgs))
     = Some (sent_frames ?c @
         map (\<lambda>m. (if Mode m = MessageModeBinary then BinaryMessage else TextMessage,
                    render (encode_Message m))) msgs)"
    using Cons.prems by (intro Cons.IH [of ?c ?cn]) (simp_all add: cn)
  moreover have "sent_frames ?c = sent_frames c @ [(?k, render (encode_Message m))]"
    using Cons.prems by (simp add: sent_frames_def frames_sent_def cn)
  ultimately show ?case
    unfolding writePump_loop_step [OF Cons.prems(1)] by simp
qed

lemma writePump_loop_drained:
  "conn c = Some cn \<Longrightarrow> buf (send c) = msgs \<Longrightarrow>
   map_option (\<lambda>c'. buf (send c')) (pump_client (writePump_loop render c msgs)) = Some []"
proof (induction msgs arbitrary: c cn)
  case Nil
  then show ?case by (simp add: pump_client_def)
next
  case (Cons m msgs)
  show ?case
    unfolding writePump_loop_step [OF Cons.prems(1)]
    by (rule Cons.IH) simp_all
qed

lemma writePump_loop_exited:
  "conn c = Some cn \<Longrightarrow> exited (writePump_loop render c msgs) = closed (send c)"
proof (induction msgs arbitrary: c cn)
  case Nil
  then show ?case by (simp add: exited_def)
next
  case (Cons m msgs)
  let ?k = "if Mode m = MessageModeBinary then BinaryMessage else TextMessage"
  let ?cn = "snd (conn_WriteMessage cn ?k (render (encode_Message m)))"
  let ?c = "c\<lparr>send := (send c)\<lparr>buf := msgs\<rparr>, conn := Some ?cn\<rparr>"
  have "exited (writePump_loop render ?c msgs) = closed (send ?c)"
    by (rule Cons.IH [of ?c ?cn]) simp
  then show ?case
    unfolding writePump_loop_step [OF Cons.prems(1)] by simp
qed

text \<open>
  Claim C6. The write pump takes the queued messages oldest first and hands each one to
  \<open>WriteMessage\<close> once, in that order: as a binary frame when its mode is
  \<open>MessageModeBinary\<close>, as a text frame for every other mode (0, the unset mode,
  included), the data being the serialized envelope. It leaves the queue empty. When no
  write fails these are exactly the frames that reach the peer.
\<close>

theorem writePump_fifo_frames:
  "conn c = Some cn \<Longrightarrow>
   map_option write_calls (pump_client (writePump render c))
     = Some (write_calls c @
         map (\<lambda>m. (if Mode m = MessageModeBinary then BinaryMessage else TextMessage,
                    render (encode_Message m))) (buf (send c))) \<and>
   map_option (\<lambda>c'. buf (send c')) (pump_client (writePump render c)) = Some [] \<and>
   (wfail cn = [] \<and> \<not> cclosed cn \<longrightarrow>
      map_option sent_frames (pump_client (writePump render c))
        = Some (sent_frames c @
            map (\<lambda>m. (if Mode m = MessageModeBinary then BinaryMessage else TextMessage,
                       render (encode_Message m))) (buf (send c))))"
  using writePump_loop_calls [where c = c and cn = cn and msgs = "buf (send c)" and render = render]
    writePump_loop_drained [where c = c and cn = cn and msgs = "buf (send c)" and render = render]
    writePump_loop_sent [where c = c and cn = cn and msgs = "buf (send c)" and render = render]
  by (simp add: writePump_def)

theorem writePump_fifo_frames_witness:
  \<open>map_option write_calls (pump_client (writePump
      (\<lambda>j. if j = JObj [(''type'', JStr ''data''), (''payload'', JStr ''eA=='')]
             then ''{"type":"data","payload":"eA=="}''
           else if j = JObj [(''type'', JStr ''chat''), (''payload'', JStr ''eQ=='')]
             then ''{"type":"chat","payload":"eQ=="}''
           else ''{"type":"note","payload":null}'')
      \<lparr>ID = ''a'', conn = Some \<lparr>wlog = [], wfail = [], cclosed = False\<rparr>,
        send = \<lparr>buf = [\<lparr>Mode = 2, Type = ''data'', Payload = Some ''x'', ClientID = []\<rparr>,
                       \<lparr>Mode = 1, Type = ''chat'', Payload = Some ''y'', ClientID = []\<rparr>,
                       \<lparr>Mode = 0, Type = ''note'', Payload = None, ClientID = []\<rparr>],
                closed = False\<rparr>,
        receive = make_chan, hub = Addr 0\<rparr>))
    = Some [(2, ''{"type":"data","payload":"eA=="}''),
            (1, ''{"type":"chat","payload":"eQ=="}''),
            (1, ''{"type":"note","payload":null}'')]\<close>
proof -
  have e: "encode_Message \<lparr>Mode = 2, Type = ''data'', Payload = Some ''x'', ClientID = []\<rparr>
        = JObj [(''type'', JStr ''data''), (''payload'', JStr ''eA=='')]"
    "encode_Message \<lparr>Mode = 1, Type = ''chat'', Payload = Some ''y'', ClientID = []\<rparr>
        = JObj [(''type'', JStr ''chat''), (''payload'', JStr ''eQ=='')]"
    "encode_Message \<lparr>Mode = 0, Type = ''note'', Payload = None, ClientID = []\<rparr>
        = JObj [(''type'', JStr ''note''), (''payload'', JNull)]"
    by code_simp+
  show ?thesis
    using writePump_fifo_frames [where
      c = "\<lparr>ID = ''a'', conn = Some \<lparr>wlog = [], wfail = [], cclosed = False\<rparr>,
        send = \<lparr>buf = [\<lparr>Mode = 2, Type = ''data'', Payload = Some ''x'', ClientID = []\<rparr>,
                       \<lparr>Mode = 1, Type = ''chat'', Payload = Some ''y'', ClientID = []\<rparr>,
                       \<lparr>Mode = 0, Type = ''note'', Payload = None, ClientID = []\<rparr>],
                closed = False\<rparr>,
        receive = make_chan, hub = Addr 0\<rparr>"
      and cn = "\<lparr>wlog = [], wfail = [], cclosed = False\<rparr>"
      and render = \<open>\<lambda>j. if j = JObj [(''type'', JStr ''data''), (''payload'', JStr ''eA=='')]
             then ''{"type":"data","payload":"eA=="}''
           else if j = JObj [(''type'', JStr ''chat''), (''payload'', JStr ''eQ=='')]
             then ''{"type":"chat","payload":"eQ=="}''
           else ''{"type":"note","payload":null}''\<close>]
    by (simp add: e write_calls_def MessageModeBinary_def BinaryMessage_def TextMessage_def)
qed

lemma writePump_exited:
  "conn c = Some cn \<Longrightarrow> exited (writePump render c) = closed (send c)"
  by (simp add: writePump_def writePump_loop_exited)

text \<open>
  Claim C2 (the code does not do this). The claim is that a failed write ends the pump.
  In the source the result of \<open>WriteMessage\<close> is assigned to \<open>err\<close> and never
  tested, so the loop goes on: by \<open>writePump_exited\<close> the pump exits exactly when
  the send queue has been closed, whatever the writes returned. Below, both writes fail;
  the pump has handed the second message to the connection after the first failure and
  is waiting for more.
\<close>

theorem writePump_ignores_write_error:
  "writePump render
     \<lparr>ID = ''a'',
      conn = Some \<lparr>wlog = [], wfail = [Some (Err ''broken pipe''), Some (Err ''broken pipe'')],
                   cclosed = False\<rparr>,
      send = \<lparr>buf = [\<lparr>Mode = 1, Type = ''chat'', Payload = Some ''one'', ClientID = []\<rparr>,
                     \<lparr>Mode = 1, Type = ''chat'', Payload = Some ''two'', ClientID = []\<rparr>],
              closed = False\<rparr>,
      receive = make_chan, hub = Addr 0\<rparr>
   = Waiting
     \<lparr>ID = ''a'',
      conn = Some \<lparr>wlog =
          [(1, render (encode_Message \<lparr>Mode = 1, Type = ''chat'', Payload = Some ''one'', ClientID = []\<rparr>),
            Some (Err ''broken pipe'')),
           (1, render (encode_Message \<lparr>Mode = 1, Type = ''chat'', Payload = Some ''two'', ClientID = []\<rparr>),
            Some (Err ''broken pipe''))],
          wfail = [], cclosed = False\<rparr>,
      send = \<lparr>buf = [], closed = False\<rparr>,
      receive = make_chan, hub = Addr 0\<rparr>"
  by (simp add: writePump_def json_Marshal_def conn_WriteMessage_def MessageModeBinary_def
      TextMessage_def)

section \<open>Properties of Close\<close>

lemma Close_nil_conn: "conn c = None \<Longrightarrow> Close c = Ok c"
  by (simp add: Close_def)

lemma Close_seals:
  "conn c = Some cn \<Longrightarrow> \<not> closed (send c) \<Longrightarrow> \<not> closed (receive c) \<Longrightarrow>
   Close c = Ok (c\<lparr>conn := Some (cn\<lparr>cclosed := True\<rparr>),
                   send := (send c)\<lparr>closed := True\<rparr>,
                   receive := (receive c)\<lparr>closed := True\<rparr>\<rparr>)"
  by (simp add: Close_def chan_close_def conn_Close_def)

lemma Close_again:
  "conn c \<noteq> None \<Longrightarrow> Close c = Ok c' \<Longrightarrow> Close c' = Panic ''close of closed channel''"
  by (auto simp: Close_def chan_close_def split: option.splits if_splits)

lemma Hub_Close_then_readPump:
  "Hub_Close \<lparr>clients = [Addr 0]\<rparr>
     [0 \<mapsto> NewClient ''user123'' (Some \<lparr>wlog = [], wfail = [], cclosed = False\<rparr>) (Addr 0)]
     = Ok (h', heap') \<Longrightarrow> heap' 0 = Some c' \<Longrightarrow>
   snd (readPump parse h' 0 c' frames) = Crashed ''close of closed channel''"
  by (cases frames)
     (auto simp: Hub_Close_def readPump_def Close_def NewClient_def make_chan_def
        chan_close_def conn_Close_def)

lemma Hub_Close_duplicate_member:
  "Hub_Close \<lparr>clients = [Addr 0, Addr 0]\<rparr>
     [0 \<mapsto> NewClient ''user123'' (Some \<lparr>wlog = [], wfail = [], cclosed = False\<rparr>) (Addr 0)]
     = Panic ''close of closed channel''"
  by (simp add: Hub_Close_def Close_def NewClient_def make_chan_def
        chan_close_def conn_Close_def)

text \<open>
  Claim C4 (the code does not do all of this). On a client without a connection
  \<open>Close\<close> changes nothing (\<open>Close_nil_conn\<close>), and on a client with a connection
  and open queues it closes the connection and both queues (\<open>Close_seals\<close>). But
  \<open>Close\<close> never sets \<open>conn\<close> to nil, so the nil test does not stop a second call:
  it reaches \<open>close(c.send)\<close> again and panics (\<open>Close_again\<close>). The package makes
  that second call itself: after \<open>Hub.Close\<close> the read pump of each closed client
  returns on the read error and its deferred \<open>c.Close()\<close> panics, and a hub that
  holds a client twice panics inside \<open>Hub.Close\<close>.
\<close>

theorem Close_twice_panics:
  "Close (NewClient ''user123'' (Some \<lparr>wlog = [], wfail = [], cclosed = False\<rparr>) (Addr 0))
     = Ok \<lparr>ID = ''user123'', conn = Some \<lparr>wlog = [], wfail = [], cclosed = True\<rparr>,
           send = \<lparr>buf = [], closed = True\<rparr>, receive = \<lparr>buf = [], closed = True\<rparr>,
           hub = Addr 0\<rparr> \<and>
   Close \<lparr>ID = ''user123'', conn = Some \<lparr>wlog = [], wfail = [], cclosed = True\<rparr>,
           send = \<lparr>buf = [], closed = True\<rparr>, receive = \<lparr>buf = [], closed = True\<rparr>,
           hub = Addr 0\<rparr>
     = Panic ''close of closed channel''"
  by (simp add: Close_def NewClient_def make_chan_def chan_close_def conn_Close_def)

section \<open>Properties of Broadcast\<close>

lemma run_send_sealed:
  "sealed heap (fst g) \<Longrightarrow> run_send heap g = Panic ''send on closed channel''"
  by (auto simp: sealed_def run_send_def chan_send_def Writer_def split: ptr.splits option.splits)

lemma run_send_keeps_sealed:
  "run_send heap g = Ok heap' \<Longrightarrow> sealed heap p \<Longrightarrow> sealed heap' p"
  by (auto simp: run_send_def chan_send_def Writer_def sealed_def
      split: ptr.splits option.splits if_splits)

lemma Close_keeps_sealed:
  "Close c = Ok c' \<Longrightarrow> closed (send c) \<Longrightarrow> closed (send c')"
  by (auto simp: Close_def chan_close_def split: option.splits if_splits)

lemma step_doomed: "doomed g p \<Longrightarrow> doomed g (step p e)"
proof (cases p)
  case (Dead msg)
  then show ?thesis by (simp add: doomed_def)
next
  case (Alive heap pending)
  assume d: "doomed g p"
  with Alive have g: "g \<in> set pending" and s: "sealed heap (fst g)"
    by (simp_all add: doomed_def)
  show ?thesis
  proof (cases e)
    case (Run g')
    show ?thesis
    proof (cases "g' = g")
      case True
      with Alive Run g s show ?thesis
        by (simp add: run_send_sealed doomed_def)
    next
      case False
      with g have "g \<in> set (remove1 g' pending)" by simp
      with Alive Run g s show ?thesis
        by (auto simp: doomed_def run_send_keeps_sealed split: outcome.splits)
    qed
  next
    case (CloseOf a)
    with Alive g s show ?thesis
      by (auto simp: doomed_def sealed_def Close_keeps_sealed
          split: option.splits outcome.splits ptr.splits)
  next
    case (Drain a)
    with Alive g s show ?thesis
      by (auto simp: doomed_def sealed_def split: option.splits ptr.splits)
  next
    case (Spawn g')
    with Alive g s show ?thesis by (simp add: doomed_def)
  qed
qed

lemma run_doomed: "doomed g p \<Longrightarrow> doomed g (foldl step p es)"
  by (induction es arbitrary: p) (simp_all add: step_doomed)

lemma run_Dead: "foldl step (Dead msg) es = Dead msg"
  by (induction es) simp_all

lemma run_doomed_crash:
  "doomed g p \<Longrightarrow> Run g \<in> set es \<Longrightarrow> crashed (foldl step p es)"
proof (induction es arbitrary: p)
  case Nil
  then show ?case by simp
next
  case (Cons e es)
  show ?case
  proof (cases "e = Run g")
    case True
    with Cons.prems(1) have "\<exists>msg. step p e = Dead msg"
      by (cases p) (auto simp: doomed_def run_send_sealed)
    then show ?thesis by (auto simp: run_Dead crashed_def)
  next
    case False
    with Cons.prems(2) have "Run g \<in> set es" by simp
    with Cons.IH [OF step_doomed [OF Cons.prems(1)]] show ?thesis by simp
  qed
qed

lemma Broadcast_doomed:
  "p \<in> set (clients h) \<Longrightarrow> sealed heap p \<Longrightarrow>
   doomed (p, message) (Alive heap (Broadcast h message))"
  by (auto simp: doomed_def Broadcast_def)

text \<open>
  A client that was live when the snapshot was taken and is closed before its send
  runs ends the same way: \<open>Broadcast\<close> has released the lock before any send.
\<close>

lemma Broadcast_client_closed_meanwhile:
  "run_events
     [0 \<mapsto> NewClient ''a'' (Some \<lparr>wlog = [], wfail = [], cclosed = False\<rparr>) (Addr 7)]
     (Broadcast \<lparr>clients = [Addr 0]\<rparr>
        \<lparr>Mode = 1, Type = ''message'', Payload = Some ''hello'', ClientID = []\<rparr>)
     [CloseOf 0,
      Run (Addr 0, \<lparr>Mode = 1, Type = ''message'', Payload = Some ''hello'', ClientID = []\<rparr>)]
   = Dead ''send on closed channel''"
  by (simp add: run_events_def Broadcast_def run_send_def Writer_def chan_send_def
      Close_def NewClient_def make_chan_def chan_close_def conn_Close_def)

text \<open>
  Claim C1 (as stated it fails; amended here). When a client of the snapshot has already
  been closed, the enqueue for it is not swallowed. Whatever else happens in the process
  and in whatever order (other sends, closes, write pumps draining, further broadcasts),
  either the process is already dead, or that send is still pending and panics with
  \<open>send on closed channel\<close> when it runs; and once it has had its turn the process
  is dead, so deliveries not yet made are lost and the broadcaster ends with the rest.
  \<open>Broadcast\<close> itself returns no value to its caller.
\<close>

theorem Broadcast_sealed_send_panics:
  "p \<in> set (clients h) \<Longrightarrow> sealed heap p \<Longrightarrow>
   (case run_events heap (Broadcast h message) es of
      Dead msg \<Rightarrow> True
    | Alive heap' pending \<Rightarrow>
        (p, message) \<in> set pending \<and> sealed heap' p \<and>
        run_send heap' (p, message) = Panic ''send on closed channel'') \<and>
   (Run (p, message) \<in> set es \<longrightarrow> crashed (run_events heap (Broadcast h message) es))"
proof (intro conjI impI)
  assume a: "p \<in> set (clients h)" "sealed heap p"
  have "doomed (p, message) (run_events heap (Broadcast h message) es)"
    unfolding run_events_def by (rule run_doomed [OF Broadcast_doomed [OF a]])
  then show "case run_events heap (Broadcast h message) es of
      Dead msg \<Rightarrow> True
    | Alive heap' pending \<Rightarrow>
        (p, message) \<in> set pending \<and> sealed heap' p \<and>
        run_send heap' (p, message) = Panic ''send on closed channel''"
    by (auto simp: doomed_def run_send_sealed split: process.splits)
next
  assume a: "p \<in> set (clients h)" "sealed heap p"
    and r: "Run (p, message) \<in> set es"
  show "crashed (run_events heap (Broadcast h message) es)"
    unfolding run_events_def by (rule run_doomed_crash [OF Broadcast_doomed [OF a] r])
qed

theorem Broadcast_sealed_send_panics_witness:
  "crashed (run_events
      [0 \<mapsto> \<lparr>ID = ''gone'', conn = Some \<lparr>wlog = [], wfail = [], cclosed = True\<rparr>,
              send = \<lparr>buf = [], closed = True\<rparr>, receive = \<lparr>buf = [], closed = True\<rparr>,
              hub = Addr 7\<rparr>,
       1 \<mapsto> NewClient ''b'' (Some \<lparr>wlog = [], wfail = [], cclosed = False\<rparr>) (Addr 7)]
      (Broadcast \<lparr>clients = [Addr 0, Addr 1]\<rparr>
         \<lparr>Mode = 1, Type = ''message'', Payload = Some ''hello'', ClientID = []\<rparr>)
      [Run (Addr 1, \<lparr>Mode = 1, Type = ''message'', Payload = Some ''hello'', ClientID = []\<rparr>),
       Drain 1,
       Run (Addr 0, \<lparr>Mode = 1, Type = ''message'', Payload = Some ''hello'', ClientID = []\<rparr>)])"
proof -
  let ?m = "\<lparr>Mode = 1, Type = ''message'', Payload = Some ''hello'', ClientID = []\<rparr>"
  let ?h = "\<lparr>clients = [Addr 0, Addr 1]\<rparr>"
  let ?gone = "\<lparr>ID = ''gone'', conn = Some \<lparr>wlog = [], wfail = [], cclosed = True\<rparr>,
              send = \<lparr>buf = [], closed = True\<rparr>, receive = \<lparr>buf = [], closed = True\<rparr>,
              hub = Addr 7\<rparr>"
  let ?b = "NewClient ''b'' (Some \<lparr>wlog = [], wfail = [], cclosed = False\<rparr>) (Addr 7)"
  let ?heap = "[0 \<mapsto> ?gone, 1 \<mapsto> ?b] :: nat \<rightharpoonup> Client"
  let ?es = "[Run (Addr 1, ?m), Drain 1, Run (Addr 0, ?m)]"
  have a: "Addr 0 \<in> set (clients ?h)" by simp
  have s: "sealed ?heap (Addr 0)" by (simp add: sealed_def)
  have r: "Run (Addr 0, ?m) \<in> set ?es" by simp
  from Broadcast_sealed_send_panics [OF a s, of ?m ?es] r show ?thesis by blast
qed

text \<open>
  The claim as stated fails here: the hub holds a client that was closed and a live
  one. The enqueue for the closed client panics and the process is dead; the live
  client has not been given the message.
\<close>

theorem Broadcast_sealed_client_counterexample:
  "run_events
     [0 \<mapsto> \<lparr>ID = ''gone'', conn = Some \<lparr>wlog = [], wfail = [], cclosed = True\<rparr>,
             send = \<lparr>buf = [], closed = True\<rparr>, receive = \<lparr>buf = [], closed = True\<rparr>,
             hub = Addr 7\<rparr>,
      1 \<mapsto> NewClient ''b'' (Some \<lparr>wlog = [], wfail = [], cclosed = False\<rparr>) (Addr 7)]
     (Broadcast \<lparr>clients = [Addr 0, Addr 1]\<rparr>
        \<lparr>Mode = 1, Type = ''message'', Payload = Some ''hello'', ClientID = []\<rparr>)
     [Run (Addr 0, \<lparr>Mode = 1, Type = ''message'', Payload = Some ''hello'', ClientID = []\<rparr>),
      Run (Addr 1, \<lparr>Mode = 1, Type = ''message'', Payload = Some ''hello'', ClientID = []\<rparr>)]
   = Dead ''send on closed channel''"
  by (simp add: run_events_def Broadcast_def run_send_def Writer_def chan_send_def)

end
